theory Spec2Isabelle
  imports Main "HOL-Library.Word"
begin

section \<open>Python values, errors and byte streams\<close>

text \<open>
  The embedding follows \<^verbatim>\<open>kmip/core/primitives.py\<close>. A byte is an 8-bit word, a
  Python \<^verbatim>\<open>int\<close> is an \<^typ>\<open>int\<close>, a Python 3 \<^verbatim>\<open>str\<close> is the list of its code points,
  and every exception the code can raise is a value of \<open>error\<close>; a method that can
  raise returns \<open>error + 'a\<close>, with \<open>Inl\<close> for the exception.
\<close>

type_synonym byte = "8 word"

datatype error =
    ReadValueError
  | WriteOverflowError
  | InvalidPrimitiveLength
  | StreamNotEmptyError nat
  | TypeError
  | ValueError
  | StructError
  | IndexError
  | UnicodeDecodeError
  | UnicodeEncodeError
  | NotImplementedError

text \<open>
  The values a caller can hand to a constructor. \<open>PyEnum c\<close> is a member of an
  \<^verbatim>\<open>enum.Enum\<close> class, known by its \<^verbatim>\<open>.value\<close> \<open>c\<close>.
\<close>

datatype pyval =
    PyNone
  | PyBool bool
  | PyInt int
  | PyStr "nat list"
  | PyBytes "byte list"
  | PyEnum int

definition bind_result :: "error + 'a \<Rightarrow> ('a \<Rightarrow> error + 'b) \<Rightarrow> error + 'b" where
  "bind_result m f = (case m of Inl e \<Rightarrow> Inl e | Inr x \<Rightarrow> f x)"

text \<open>Python truthiness, as \<^verbatim>\<open>if self.value:\<close> tests it.\<close>

fun truthy :: "pyval \<Rightarrow> bool" where
  "truthy PyNone = False"
| "truthy (PyBool b) = b"
| "truthy (PyInt n) = (n \<noteq> 0)"
| "truthy (PyStr s) = (s \<noteq> [])"
| "truthy (PyBytes bs) = (bs \<noteq> [])"
| "truthy (PyEnum c) = True"

text \<open>
  Modelled from the spec: the byte stream (\<^verbatim>\<open>kmip.core.utils.BytearrayStream\<close>) is not
  under src/. Section 6 of the spec gives its contract: \<^verbatim>\<open>read(n)\<close> returns up to \<open>n\<close>
  bytes and advances, \<^verbatim>\<open>write(bytes)\<close> appends, \<^verbatim>\<open>peek(n)\<close> returns up to \<open>n\<close> bytes
  without advancing. A stream is the list of its unread bytes.
\<close>

type_synonym stream = "byte list"

definition stream_read :: "nat \<Rightarrow> stream \<Rightarrow> byte list \<times> stream" where
  "stream_read n s = (take n s, drop n s)"

definition stream_write :: "stream \<Rightarrow> byte list \<Rightarrow> stream" where
  "stream_write s bs = s @ bs"

definition stream_peek :: "nat \<Rightarrow> stream \<Rightarrow> byte list" where
  "stream_peek n s = take n s"

subsection \<open>The struct module\<close>

text \<open>
  Big-endian bytes of a natural number and back. \<^verbatim>\<open>struct.pack\<close> raises
  \<^verbatim>\<open>struct.error\<close> for a value outside the format's range and \<^verbatim>\<open>struct.unpack\<close>
  raises it for a buffer that has not exactly the format's size.
\<close>

fun be_bytes :: "nat \<Rightarrow> nat \<Rightarrow> byte list" where
  "be_bytes 0 v = []"
| "be_bytes (Suc n) v = be_bytes n (v div 256) @ [of_nat (v mod 256)]"

definition be_nat :: "byte list \<Rightarrow> nat" where
  "be_nat bs = foldl (\<lambda>a b. a * 256 + unat b) 0 bs"

definition pack_unsigned :: "nat \<Rightarrow> int \<Rightarrow> error + byte list" where
  "pack_unsigned n v =
     (if 0 \<le> v \<and> v < 2 ^ (8 * n) then Inr (be_bytes n (nat v)) else Inl StructError)"

definition pack_signed :: "nat \<Rightarrow> int \<Rightarrow> error + byte list" where
  "pack_signed n v =
     (if - (2 ^ (8 * n - 1)) \<le> v \<and> v < 2 ^ (8 * n - 1)
      then Inr (be_bytes n (nat (v mod 2 ^ (8 * n)))) else Inl StructError)"

definition unpack_unsigned :: "nat \<Rightarrow> byte list \<Rightarrow> error + int" where
  "unpack_unsigned n bs =
     (if length bs \<noteq> n then Inl StructError else Inr (int (be_nat bs)))"

definition unpack_signed :: "nat \<Rightarrow> byte list \<Rightarrow> error + int" where
  "unpack_signed n bs =
     (if length bs \<noteq> n then Inl StructError
      else if be_nat bs \<ge> 2 ^ (8 * n - 1) then Inr (int (be_nat bs) - 2 ^ (8 * n))
      else Inr (int (be_nat bs)))"

text \<open>The two format strings an Integer object can hold in \<^verbatim>\<open>pack_string\<close>.\<close>

datatype pack_format = Fmt_i | Fmt_I

fun pack_fmt :: "pack_format \<Rightarrow> int \<Rightarrow> error + byte list" where
  "pack_fmt Fmt_i v = pack_signed 4 v"
| "pack_fmt Fmt_I v = pack_unsigned 4 v"

fun unpack_fmt :: "pack_format \<Rightarrow> byte list \<Rightarrow> error + int" where
  "unpack_fmt Fmt_i bs = unpack_signed 4 bs"
| "unpack_fmt Fmt_I bs = unpack_unsigned 4 bs"

text \<open>
  What \<^verbatim>\<open>struct.pack\<close> takes for an integer format: an \<^verbatim>\<open>int\<close>, or a \<^verbatim>\<open>bool\<close> (a subclass
  of \<^verbatim>\<open>int\<close>); anything else raises \<^verbatim>\<open>struct.error\<close>.
\<close>

fun pack_arg :: "pyval \<Rightarrow> error + int" where
  "pack_arg (PyInt v) = Inr v"
| "pack_arg (PyBool b) = Inr (if b then 1 else 0)"
| "pack_arg v = Inl StructError"

section \<open>Objects\<close>

text \<open>
  One record holds the attributes the classes of the module assign. \<open>self_class\<close>
  is the class the object was created from: \<^verbatim>\<open>self.validate()\<close> is dispatched on it.
  Members of the enumerations \<^verbatim>\<open>Tags\<close> and \<^verbatim>\<open>Types\<close> are held by their values; an
  enumeration has one member per value, so the identity test \<^verbatim>\<open>is not\<close> on members
  is inequality of values.
\<close>

datatype cls =
    C_Base | C_Struct | C_Integer | C_LongInteger | C_BigInteger | C_Enumeration
  | C_Boolean | C_TextString | C_ByteString | C_DateTime | C_Interval

record primitive =
  self_class :: cls
  self_tag :: nat
  self_type :: nat
  self_length :: "nat option"
  self_value :: pyval
  self_padding_length :: "nat option"
  self_pack_string :: pack_format
  self_enum :: pyval

text \<open>A fresh object of a class, before \<^verbatim>\<open>__init__\<close> has assigned anything.\<close>

definition new_object :: "cls \<Rightarrow> primitive" where
  "new_object c =
     \<lparr>self_class = c, self_tag = 0, self_type = 0, self_length = None,
      self_value = PyNone, self_padding_length = None, self_pack_string = Fmt_i,
      self_enum = PyNone\<rparr>"

text \<open>
  Modelled from the spec: the enumeration \<^verbatim>\<open>Types\<close> (\<^verbatim>\<open>kmip.core.enums\<close>) is not under
  src/. These are the discriminant codes of the table in section 6 of the spec.
  Which numbers are members of \<^verbatim>\<open>Tags\<close> and of \<^verbatim>\<open>Types\<close> is a parameter of every
  function that converts a number to a member (\<open>Tags\<close>, \<open>Types\<close> below).
\<close>

definition Types_STRUCTURE :: nat where "Types_STRUCTURE = 0x01"
definition Types_INTEGER :: nat where "Types_INTEGER = 0x02"
definition Types_LONG_INTEGER :: nat where "Types_LONG_INTEGER = 0x03"
definition Types_BIG_INTEGER :: nat where "Types_BIG_INTEGER = 0x04"
definition Types_ENUMERATION :: nat where "Types_ENUMERATION = 0x05"
definition Types_BOOLEAN :: nat where "Types_BOOLEAN = 0x06"
definition Types_TEXT_STRING :: nat where "Types_TEXT_STRING = 0x07"
definition Types_BYTE_STRING :: nat where "Types_BYTE_STRING = 0x08"
definition Types_DATE_TIME :: nat where "Types_DATE_TIME = 0x09"
definition Types_INTERVAL :: nat where "Types_INTERVAL = 0x0A"

definition spec_Types :: "nat \<Rightarrow> bool" where
  "spec_Types c = (1 \<le> c \<and> c \<le> 10)"

section \<open>Base: the header codec\<close>

definition TAG_SIZE :: nat where "TAG_SIZE = 3"
definition TYPE_SIZE :: nat where "TYPE_SIZE = 1"
definition LENGTH_SIZE :: nat where "LENGTH_SIZE = 4"

definition Base_init :: "primitive \<Rightarrow> nat \<Rightarrow> nat \<Rightarrow> primitive" where
  "Base_init self tag type =
     self\<lparr>self_tag := tag, self_type := type, self_length := None\<rparr>"

definition is_oversized :: "stream \<Rightarrow> error + unit" where
  "is_oversized s =
     (let extra = length s in if extra > 0 then Inl (StreamNotEmptyError extra) else Inr ())"

definition read_tag :: "(nat \<Rightarrow> bool) \<Rightarrow> primitive \<Rightarrow> stream \<Rightarrow> error + stream" where
  "read_tag Tags self istream =
     (case stream_read TAG_SIZE istream of (tts, rest) \<Rightarrow>
        bind_result (unpack_unsigned 4 (0 # take TAG_SIZE tts)) (\<lambda>tag.
          if \<not> Tags (nat tag) then Inl ValueError
          else if nat tag \<noteq> self_tag self then Inl ReadValueError
          else Inr rest))"

definition read_type :: "(nat \<Rightarrow> bool) \<Rightarrow> primitive \<Rightarrow> stream \<Rightarrow> error + stream" where
  "read_type Types self istream =
     (case stream_read TYPE_SIZE istream of (tts, rest) \<Rightarrow>
        if length tts \<noteq> TYPE_SIZE then Inl ReadValueError
        else bind_result (unpack_unsigned 1 tts) (\<lambda>typ.
          if \<not> Types (nat typ) then Inl ValueError
          else if nat typ \<noteq> self_type self then Inl ReadValueError
          else Inr rest))"

definition read_length :: "primitive \<Rightarrow> stream \<Rightarrow> error + primitive \<times> stream" where
  "read_length self istream =
     (case stream_read LENGTH_SIZE istream of (lst, rest) \<Rightarrow>
        if length lst \<noteq> LENGTH_SIZE then Inl ReadValueError
        else bind_result (unpack_unsigned 4 lst) (\<lambda>l.
          Inr (self\<lparr>self_length := Some (nat l)\<rparr>, rest)))"

definition Base_read ::
  "(nat \<Rightarrow> bool) \<Rightarrow> (nat \<Rightarrow> bool) \<Rightarrow> primitive \<Rightarrow> stream \<Rightarrow> error + primitive \<times> stream" where
  "Base_read Tags Types self istream =
     bind_result (read_tag Tags self istream) (\<lambda>s1.
     bind_result (read_type Types self s1) (\<lambda>s2.
     read_length self s2))"

definition write_tag :: "primitive \<Rightarrow> stream \<Rightarrow> error + stream" where
  "write_tag self ostream =
     bind_result (pack_unsigned 4 (int (self_tag self))) (\<lambda>bs.
       Inr (stream_write ostream (drop 1 bs)))"

definition write_type :: "(nat \<Rightarrow> bool) \<Rightarrow> primitive \<Rightarrow> stream \<Rightarrow> error + stream" where
  "write_type Types self ostream =
     (if \<not> Types (self_type self) then Inl TypeError
      else bind_result (pack_unsigned 1 (int (self_type self))) (\<lambda>bs.
        Inr (stream_write ostream bs)))"

text \<open>
  Modelled from the spec: \<^verbatim>\<open>utils.count_bytes\<close> is not under src/. Section 4.1 of the
  spec says the header write fails with \<^verbatim>\<open>WriteOverflowError\<close> if the length exceeds
  \<open>2^32 - 1\<close>, that is if the length needs more than \<open>LENGTH_SIZE\<close> bytes.
\<close>

definition count_bytes_exceeds :: "nat \<Rightarrow> nat \<Rightarrow> bool" where
  "count_bytes_exceeds l n = (l \<ge> 2 ^ (8 * n))"

definition write_length :: "primitive \<Rightarrow> stream \<Rightarrow> error + stream" where
  "write_length self ostream =
     (case self_length self of
        None \<Rightarrow> Inl TypeError
      | Some l \<Rightarrow>
          if count_bytes_exceeds l LENGTH_SIZE then Inl WriteOverflowError
          else bind_result (pack_unsigned 4 (int l)) (\<lambda>bs.
            Inr (stream_write ostream bs)))"

definition Base_write :: "(nat \<Rightarrow> bool) \<Rightarrow> primitive \<Rightarrow> stream \<Rightarrow> error + stream" where
  "Base_write Types self ostream =
     bind_result (write_tag self ostream) (\<lambda>s1.
     bind_result (write_type Types self s1) (\<lambda>s2.
     write_length self s2))"


section \<open>Validation\<close>

text \<open>
  \<^verbatim>\<open>six.integer_types\<close> is \<^verbatim>\<open>(int,)\<close>. \<^verbatim>\<open>Integer.validate\<close> tests
  \<^verbatim>\<open>type(self.value) not in six.integer_types\<close>, which a \<^verbatim>\<open>bool\<close> fails;
  \<^verbatim>\<open>LongInteger.validate\<close> and \<^verbatim>\<open>BigInteger.validate\<close> test \<^verbatim>\<open>isinstance\<close>, which a
  \<^verbatim>\<open>bool\<close> passes.
\<close>

definition Integer_MIN :: int where "Integer_MIN = - 2147483648"
definition Integer_MAX :: int where "Integer_MAX = 2147483647"
definition LongInteger_MIN :: int where "LongInteger_MIN = - 9223372036854775808"
definition LongInteger_MAX :: int where "LongInteger_MAX = 9223372036854775807"

fun Integer_validate :: "primitive \<Rightarrow> error + unit" where
  "Integer_validate self =
     (case self_value self of
        PyNone \<Rightarrow> Inr ()
      | PyInt v \<Rightarrow>
          if v > Integer_MAX then Inl ValueError
          else if v < Integer_MIN then Inl ValueError
          else Inr ()
      | _ \<Rightarrow> Inl TypeError)"

fun LongInteger_validate :: "primitive \<Rightarrow> error + unit" where
  "LongInteger_validate self =
     (case self_value self of
        PyNone \<Rightarrow> Inr ()
      | PyInt v \<Rightarrow>
          if v > LongInteger_MAX then Inl ValueError
          else if v < LongInteger_MIN then Inl ValueError
          else Inr ()
      | PyBool b \<Rightarrow> Inr ()
      | _ \<Rightarrow> Inl TypeError)"

fun BigInteger_validate :: "primitive \<Rightarrow> error + unit" where
  "BigInteger_validate self =
     (case self_value self of
        PyNone \<Rightarrow> Inr ()
      | PyInt v \<Rightarrow> Inr ()
      | PyBool b \<Rightarrow> Inr ()
      | _ \<Rightarrow> Inl TypeError)"

fun Enumeration_validate :: "primitive \<Rightarrow> error + unit" where
  "Enumeration_validate self =
     (case self_enum self of
        PyNone \<Rightarrow> Inr ()
      | PyEnum c \<Rightarrow> Inr ()
      | _ \<Rightarrow> Inl TypeError)"

fun Boolean_validate :: "primitive \<Rightarrow> error + unit" where
  "Boolean_validate self =
     (if truthy (self_value self)
      then (case self_value self of PyBool b \<Rightarrow> Inr () | _ \<Rightarrow> Inl TypeError)
      else Inr ())"

fun TextString_validate :: "primitive \<Rightarrow> error + unit" where
  "TextString_validate self =
     (case self_value self of
        PyNone \<Rightarrow> Inr ()
      | PyStr s \<Rightarrow> Inr ()
      | _ \<Rightarrow> Inl TypeError)"

fun ByteString_validate :: "primitive \<Rightarrow> error + unit" where
  "ByteString_validate self =
     (case self_value self of
        PyNone \<Rightarrow> Inr ()
      | PyBytes bs \<Rightarrow> Inr ()
      | _ \<Rightarrow> Inl TypeError)"

text \<open>
  \<^verbatim>\<open>self.validate()\<close>: the method of the object's class. \<^verbatim>\<open>Interval\<close> inherits
  \<^verbatim>\<open>Integer.validate\<close> and \<^verbatim>\<open>DateTime\<close> inherits \<^verbatim>\<open>LongInteger.validate\<close>;
  \<^verbatim>\<open>Enumeration\<close> overrides \<^verbatim>\<open>Integer.validate\<close>.
\<close>

fun validate :: "primitive \<Rightarrow> error + unit" where
  "validate self =
     (case self_class self of
        C_Base \<Rightarrow> Inl NotImplementedError
      | C_Struct \<Rightarrow> Inl NotImplementedError
      | C_Integer \<Rightarrow> Integer_validate self
      | C_Interval \<Rightarrow> Integer_validate self
      | C_LongInteger \<Rightarrow> LongInteger_validate self
      | C_DateTime \<Rightarrow> LongInteger_validate self
      | C_BigInteger \<Rightarrow> BigInteger_validate self
      | C_Enumeration \<Rightarrow> Enumeration_validate self
      | C_Boolean \<Rightarrow> Boolean_validate self
      | C_TextString \<Rightarrow> TextString_validate self
      | C_ByteString \<Rightarrow> ByteString_validate self)"

section \<open>Integer, Enumeration, Interval\<close>

definition Integer_LENGTH :: nat where "Integer_LENGTH = 4"

text \<open>\<^verbatim>\<open>istream.read(n)\<close> where \<open>n\<close> is an attribute that may still be \<^verbatim>\<open>None\<close>: all the rest.\<close>

definition stream_read_attr :: "nat option \<Rightarrow> stream \<Rightarrow> byte list \<times> stream" where
  "stream_read_attr n s = (case n of None \<Rightarrow> (s, []) | Some k \<Rightarrow> stream_read k s)"

definition Integer_init :: "primitive \<Rightarrow> pyval \<Rightarrow> nat \<Rightarrow> bool \<Rightarrow> error + primitive" where
  "Integer_init self0 value tag signed_flag =
     (let self = Base_init self0 tag Types_INTEGER;
          self = self\<lparr>self_value := value\<rparr>;
          self = (if self_value self = PyNone then self\<lparr>self_value := PyInt 0\<rparr> else self);
          self = self\<lparr>self_length := Some Integer_LENGTH\<rparr>;
          self = self\<lparr>self_padding_length := Some Integer_LENGTH\<rparr>;
          self = (if signed_flag then self\<lparr>self_pack_string := Fmt_i\<rparr>
                  else self\<lparr>self_pack_string := Fmt_I\<rparr>)
      in bind_result (validate self) (\<lambda>_. Inr self))"

definition Integer_read_value :: "primitive \<Rightarrow> stream \<Rightarrow> error + primitive \<times> stream" where
  "Integer_read_value self istream =
     (if self_length self \<noteq> Some Integer_LENGTH then Inl ReadValueError
      else case stream_read_attr (self_length self) istream of (vb, s1) \<Rightarrow>
        bind_result (unpack_fmt (self_pack_string self) vb) (\<lambda>v.
          case stream_read_attr (self_padding_length self) s1 of (pb, s2) \<Rightarrow>
            bind_result (unpack_fmt (self_pack_string self) pb) (\<lambda>pad.
              if pad \<noteq> 0 then Inl ReadValueError
              else let self' = self\<lparr>self_value := PyInt v\<rparr>
                   in bind_result (validate self') (\<lambda>_. Inr (self', s2)))))"

definition Integer_read ::
  "(nat \<Rightarrow> bool) \<Rightarrow> (nat \<Rightarrow> bool) \<Rightarrow> primitive \<Rightarrow> stream \<Rightarrow> error + primitive \<times> stream" where
  "Integer_read Tags Types self istream =
     bind_result (Base_read Tags Types self istream) (\<lambda>(self', s1).
       Integer_read_value self' s1)"

definition Integer_write_value :: "primitive \<Rightarrow> stream \<Rightarrow> error + stream" where
  "Integer_write_value self ostream =
     bind_result (pack_arg (self_value self)) (\<lambda>v.
     bind_result (pack_fmt (self_pack_string self) v) (\<lambda>vb.
     bind_result (pack_fmt (self_pack_string self) 0) (\<lambda>pb.
       Inr (stream_write (stream_write ostream vb) pb))))"

definition Integer_write :: "(nat \<Rightarrow> bool) \<Rightarrow> primitive \<Rightarrow> stream \<Rightarrow> error + stream" where
  "Integer_write Types self ostream =
     bind_result (Base_write Types self ostream) (\<lambda>s1. Integer_write_value self s1)"

text \<open>
  \<^verbatim>\<open>Enumeration\<close>. \<^verbatim>\<open>ENUM_TYPE\<close> is \<^verbatim>\<open>None\<close> in the class itself and an \<^verbatim>\<open>Enum\<close> class in a
  subclass: \<open>None\<close>, or \<open>Some\<close> of the test that a number is the value of a member.
\<close>

definition Enumeration_init :: "primitive \<Rightarrow> pyval \<Rightarrow> nat \<Rightarrow> error + primitive" where
  "Enumeration_init self0 value tag =
     (let self = self0\<lparr>self_enum := value\<rparr>
      in bind_result (validate self) (\<lambda>_.
         bind_result
           (case self_enum self of
              PyNone \<Rightarrow> Integer_init self PyNone tag False
            | PyEnum c \<Rightarrow> Integer_init self (PyInt c) tag False
            | _ \<Rightarrow> Inl TypeError) (\<lambda>self'.
         Inr (self'\<lparr>self_type := Types_ENUMERATION\<rparr>))))"

definition Enumeration_read ::
  "(nat \<Rightarrow> bool) \<Rightarrow> (nat \<Rightarrow> bool) \<Rightarrow> (int \<Rightarrow> bool) option \<Rightarrow> primitive \<Rightarrow> stream
     \<Rightarrow> error + primitive \<times> stream" where
  "Enumeration_read Tags Types ENUM_TYPE self istream =
     bind_result (Integer_read Tags Types self istream) (\<lambda>(self', s1).
       case ENUM_TYPE of
         None \<Rightarrow> Inl TypeError
       | Some member \<Rightarrow>
           (case self_value self' of
              PyInt v \<Rightarrow>
                if \<not> member v then Inl ValueError
                else let self'' = self'\<lparr>self_enum := PyEnum v\<rparr>
                     in bind_result (validate self'') (\<lambda>_. Inr (self'', s1))
            | _ \<Rightarrow> Inl ValueError))"

definition Enumeration_write :: "(nat \<Rightarrow> bool) \<Rightarrow> primitive \<Rightarrow> stream \<Rightarrow> error + stream" where
  "Enumeration_write Types self ostream = Integer_write Types self ostream"

text \<open>\<^verbatim>\<open>Interval.__init__\<close> calls \<^verbatim>\<open>Integer.__init__(value, tag)\<close>: \<^verbatim>\<open>signed\<close> keeps its default, \<^verbatim>\<open>True\<close>.\<close>

definition Interval_init :: "primitive \<Rightarrow> pyval \<Rightarrow> nat \<Rightarrow> error + primitive" where
  "Interval_init self0 value tag =
     bind_result (Integer_init self0 value tag True) (\<lambda>self.
       Inr (self\<lparr>self_type := Types_INTERVAL\<rparr>))"

section \<open>LongInteger, DateTime\<close>

definition LongInteger_LENGTH :: nat where "LongInteger_LENGTH = 8"

definition LongInteger_init :: "primitive \<Rightarrow> pyval \<Rightarrow> nat \<Rightarrow> error + primitive" where
  "LongInteger_init self0 value tag =
     (let self = Base_init self0 tag Types_LONG_INTEGER;
          self = self\<lparr>self_value := value\<rparr>;
          self = self\<lparr>self_length := Some LongInteger_LENGTH\<rparr>
      in bind_result (validate self) (\<lambda>_. Inr self))"

definition LongInteger_read_value :: "primitive \<Rightarrow> stream \<Rightarrow> error + primitive \<times> stream" where
  "LongInteger_read_value self istream =
     (if self_length self \<noteq> Some LongInteger_LENGTH then Inl InvalidPrimitiveLength
      else case stream_read_attr (self_length self) istream of (vb, s1) \<Rightarrow>
        bind_result (unpack_signed 8 vb) (\<lambda>v.
          let self' = self\<lparr>self_value := PyInt v\<rparr>
          in bind_result (validate self') (\<lambda>_. Inr (self', s1))))"

definition LongInteger_read ::
  "(nat \<Rightarrow> bool) \<Rightarrow> (nat \<Rightarrow> bool) \<Rightarrow> primitive \<Rightarrow> stream \<Rightarrow> error + primitive \<times> stream" where
  "LongInteger_read Tags Types self istream =
     bind_result (Base_read Tags Types self istream) (\<lambda>(self', s1).
       LongInteger_read_value self' s1)"

definition LongInteger_write_value :: "primitive \<Rightarrow> stream \<Rightarrow> error + stream" where
  "LongInteger_write_value self ostream =
     bind_result (pack_arg (self_value self)) (\<lambda>v.
     bind_result (pack_signed 8 v) (\<lambda>vb.
       Inr (stream_write ostream vb)))"

definition LongInteger_write :: "(nat \<Rightarrow> bool) \<Rightarrow> primitive \<Rightarrow> stream \<Rightarrow> error + stream" where
  "LongInteger_write Types self ostream =
     bind_result (Base_write Types self ostream) (\<lambda>s1. LongInteger_write_value self s1)"

definition DateTime_init :: "primitive \<Rightarrow> pyval \<Rightarrow> nat \<Rightarrow> error + primitive" where
  "DateTime_init self0 value tag =
     bind_result (LongInteger_init self0 value tag) (\<lambda>self.
       Inr (self\<lparr>self_type := Types_DATE_TIME\<rparr>))"

section \<open>Boolean\<close>

definition Boolean_LENGTH :: nat where "Boolean_LENGTH = 8"

definition Boolean_init :: "primitive \<Rightarrow> pyval \<Rightarrow> nat \<Rightarrow> error + primitive" where
  "Boolean_init self0 value tag =
     (let self = Base_init self0 tag Types_BOOLEAN;
          self = self\<lparr>self_value := value\<rparr>;
          self = self\<lparr>self_length := Some Boolean_LENGTH\<rparr>
      in bind_result (validate self) (\<lambda>_. Inr self))"

definition Boolean_read_value :: "primitive \<Rightarrow> stream \<Rightarrow> error + primitive \<times> stream" where
  "Boolean_read_value self istream =
     (case stream_read Boolean_LENGTH istream of (vb, s1) \<Rightarrow>
        bind_result (unpack_unsigned 8 vb) (\<lambda>v.
          if v = 1 then
            (let self' = self\<lparr>self_value := PyBool True\<rparr>
             in bind_result (validate self') (\<lambda>_. Inr (self', s1)))
          else if v = 0 then
            (let self' = self\<lparr>self_value := PyBool False\<rparr>
             in bind_result (validate self') (\<lambda>_. Inr (self', s1)))
          else Inl ValueError))"

definition Boolean_read ::
  "(nat \<Rightarrow> bool) \<Rightarrow> (nat \<Rightarrow> bool) \<Rightarrow> primitive \<Rightarrow> stream \<Rightarrow> error + primitive \<times> stream" where
  "Boolean_read Tags Types self istream =
     bind_result (Base_read Tags Types self istream) (\<lambda>(self', s1).
       Boolean_read_value self' s1)"

definition Boolean_write_value :: "primitive \<Rightarrow> stream \<Rightarrow> error + stream" where
  "Boolean_write_value self ostream =
     bind_result (pack_arg (self_value self)) (\<lambda>v.
     bind_result (pack_unsigned 8 v) (\<lambda>vb.
       Inr (stream_write ostream vb)))"

definition Boolean_write :: "(nat \<Rightarrow> bool) \<Rightarrow> primitive \<Rightarrow> stream \<Rightarrow> error + stream" where
  "Boolean_write Types self ostream =
     bind_result (Base_write Types self ostream) (\<lambda>s1. Boolean_write_value self s1)"

section \<open>BigInteger\<close>

text \<open>
  \<^verbatim>\<open>"{0:b}".format(n)\<close> for \<open>n \<ge> 0\<close>: the binary digits of \<open>n\<close>, most significant first,
  and \<^verbatim>\<open>"0"\<close> for zero.
\<close>

definition bit_char :: "nat \<Rightarrow> char" where
  "bit_char d = (if d = 0 then CHR ''0'' else CHR ''1'')"

fun format_b :: "nat \<Rightarrow> string" where
  "format_b n = (if n < 2 then [bit_char n] else format_b (n div 2) @ [bit_char (n mod 2)])"

declare format_b.simps [simp del]

text \<open>\<^verbatim>\<open>s.replace(c, d)\<close> for one-character \<open>c\<close> and \<open>d\<close>.\<close>

definition str_replace :: "char \<Rightarrow> char \<Rightarrow> string \<Rightarrow> string" where
  "str_replace c d s = map (\<lambda>x. if x = c then d else x) s"

text \<open>\<^verbatim>\<open>s.rfind(c)\<close>: the highest index of \<open>c\<close> in \<open>s\<close>, or \<open>-1\<close>.\<close>

fun rfind :: "char \<Rightarrow> string \<Rightarrow> int" where
  "rfind c [] = - 1"
| "rfind c (x # xs) =
     (let r = rfind c xs in if r \<ge> 0 then r + 1 else if x = c then 0 else - 1)"

text \<open>\<^verbatim>\<open>s[0:j]\<close>: a negative \<open>j\<close> counts from the end.\<close>

definition slice_to :: "string \<Rightarrow> int \<Rightarrow> string" where
  "slice_to s j = (if j < 0 then take (nat (int (length s) + j)) s else take (nat j) s)"

text \<open>
  \<^verbatim>\<open>int(s, 2)\<close> on a string of binary digits; the empty string and any other
  character raise \<^verbatim>\<open>ValueError\<close>.
\<close>

definition bits_value :: "string \<Rightarrow> nat" where
  "bits_value s = foldl (\<lambda>a c. 2 * a + (if c = CHR ''1'' then 1 else 0)) 0 s"

definition is_bits :: "string \<Rightarrow> bool" where
  "is_bits s = list_all (\<lambda>c. c = CHR ''0'' \<or> c = CHR ''1'') s"

definition int_base2 :: "string \<Rightarrow> error + int" where
  "int_base2 s = (if s = [] \<or> \<not> is_bits s then Inl ValueError else Inr (int (bits_value s)))"

text \<open>
  The block both \<^verbatim>\<open>BigInteger.read\<close> and \<^verbatim>\<open>BigInteger.write\<close> run on a negative value:
  swap the digits through \<^verbatim>\<open>'i'\<close>, then add one at the last \<^verbatim>\<open>'0'\<close>.
\<close>

definition twos_complement :: "string \<Rightarrow> string" where
  "twos_complement binary0 =
     (let binary = str_replace (CHR ''1'') (CHR ''i'') binary0;
          binary = str_replace (CHR ''0'') (CHR ''1'') binary;
          binary = str_replace (CHR ''i'') (CHR ''0'') binary;
          pivot = rfind (CHR ''0'') binary
      in slice_to binary pivot @ [CHR ''1'']
           @ replicate (length (drop (nat (pivot + 1)) binary)) (CHR ''0''))"

text \<open>What \<^verbatim>\<open>abs\<close> and the comparison with \<open>0\<close> take: an \<^verbatim>\<open>int\<close> or a \<^verbatim>\<open>bool\<close>.\<close>

fun int_arg :: "pyval \<Rightarrow> error + int" where
  "int_arg (PyInt v) = Inr v"
| "int_arg (PyBool b) = Inr (if b then 1 else 0)"
| "int_arg v = Inl TypeError"

definition BigInteger_init :: "primitive \<Rightarrow> pyval \<Rightarrow> nat \<Rightarrow> error + primitive" where
  "BigInteger_init self0 value tag =
     (let self = Base_init self0 tag Types_BIG_INTEGER;
          self = self\<lparr>self_value := value\<rparr>
      in bind_result (validate self) (\<lambda>_. Inr self))"

fun BigInteger_read_bits :: "nat \<Rightarrow> stream \<Rightarrow> string \<Rightarrow> error + string \<times> stream" where
  "BigInteger_read_bits 0 istream binary = Inr (binary, istream)"
| "BigInteger_read_bits (Suc n) istream binary =
     (case stream_read 1 istream of (b1, rest) \<Rightarrow>
        bind_result (unpack_unsigned 1 b1) (\<lambda>byte.
          let bits = format_b (nat byte);
              pad = length bits mod 8;
              bits = (if pad \<noteq> 0 then replicate (8 - pad) (CHR ''0'') @ bits else bits)
          in BigInteger_read_bits n rest (binary @ bits)))"

definition BigInteger_read ::
  "(nat \<Rightarrow> bool) \<Rightarrow> (nat \<Rightarrow> bool) \<Rightarrow> primitive \<Rightarrow> stream \<Rightarrow> error + primitive \<times> stream" where
  "BigInteger_read Tags Types self istream =
     bind_result (Base_read Tags Types self istream) (\<lambda>(self', s1).
       case self_length self' of
         None \<Rightarrow> Inl TypeError
       | Some l \<Rightarrow>
           if l mod 8 \<noteq> 0 then Inl InvalidPrimitiveLength
           else bind_result (BigInteger_read_bits l s1 []) (\<lambda>(binary, s2).
             if binary = [] then Inl IndexError
             else if hd binary = CHR ''1'' then
               bind_result (int_base2 (twos_complement binary)) (\<lambda>v.
                 Inr (self'\<lparr>self_value := PyInt (v * (- 1))\<rparr>, s2))
             else
               bind_result (int_base2 binary) (\<lambda>v.
                 Inr (self'\<lparr>self_value := PyInt (v * 1)\<rparr>, s2))))"

fun BigInteger_hexadecimal :: "string \<Rightarrow> error + byte list" where
  "BigInteger_hexadecimal binary =
     (if binary = [] then Inr []
      else bind_result (int_base2 (take 8 binary)) (\<lambda>byte.
           bind_result (pack_unsigned 1 byte) (\<lambda>b.
           bind_result (BigInteger_hexadecimal (drop 8 binary)) (\<lambda>rest.
             Inr (b @ rest)))))"

declare BigInteger_hexadecimal.simps [simp del]

definition BigInteger_binary :: "int \<Rightarrow> string" where
  "BigInteger_binary v =
     (let binary = format_b (nat (abs v));
          binary = replicate (64 - length binary mod 64) (CHR ''0'') @ binary
      in if v < 0 then twos_complement binary else binary)"

definition BigInteger_write ::
  "(nat \<Rightarrow> bool) \<Rightarrow> primitive \<Rightarrow> stream \<Rightarrow> error + primitive \<times> stream" where
  "BigInteger_write Types self ostream =
     bind_result (int_arg (self_value self)) (\<lambda>v.
     bind_result (BigInteger_hexadecimal (BigInteger_binary v)) (\<lambda>hexadecimal.
       let self' = self\<lparr>self_length := Some (length hexadecimal)\<rparr>
       in bind_result (Base_write Types self' ostream) (\<lambda>s1.
            Inr (self', stream_write s1 hexadecimal))))"

section \<open>TextString, ByteString\<close>

definition PADDING_SIZE :: nat where "PADDING_SIZE = 8"

text \<open>
  \<^verbatim>\<open>char.encode()\<close> in Python 3: the UTF-8 bytes of one code point; a surrogate raises
  \<^verbatim>\<open>UnicodeEncodeError\<close>.
\<close>

definition char_encode :: "nat \<Rightarrow> error + byte list" where
  "char_encode c =
     (if c < 0x80 then Inr [of_nat c]
      else if c < 0x800 then Inr [of_nat (0xC0 + c div 64), of_nat (0x80 + c mod 64)]
      else if 0xD800 \<le> c \<and> c < 0xE000 then Inl UnicodeEncodeError
      else if c < 0x10000 then
        Inr [of_nat (0xE0 + c div 4096), of_nat (0x80 + c div 64 mod 64), of_nat (0x80 + c mod 64)]
      else
        Inr [of_nat (0xF0 + c div 262144), of_nat (0x80 + c div 4096 mod 64),
             of_nat (0x80 + c div 64 mod 64), of_nat (0x80 + c mod 64)])"

text \<open>
  In Python 2 a \<^verbatim>\<open>str\<close> is a byte string and a character of it is one byte: \<^verbatim>\<open>c = char\<close>.
\<close>

definition char_py2 :: "nat \<Rightarrow> error + byte list" where
  "char_py2 c = (if c < 256 then Inr [of_nat c] else Inl StructError)"

text \<open>\<^verbatim>\<open>pack('!c', c)\<close> and \<^verbatim>\<open>unpack('!c', bs)\<close>: exactly one byte.\<close>

definition pack_c :: "byte list \<Rightarrow> error + byte list" where
  "pack_c c = (if length c \<noteq> 1 then Inl StructError else Inr c)"

definition unpack_c :: "byte list \<Rightarrow> error + byte" where
  "unpack_c bs = (case bs of [b] \<Rightarrow> Inr b | _ \<Rightarrow> Inl StructError)"

text \<open>\<^verbatim>\<open>c.decode()\<close> in Python 3, for the one byte \<^verbatim>\<open>unpack('!c', ...)\<close> returned.\<close>

definition byte_decode :: "byte \<Rightarrow> error + nat" where
  "byte_decode b = (if unat b < 0x80 then Inr (unat b) else Inl UnicodeDecodeError)"

definition TextString_init :: "primitive \<Rightarrow> pyval \<Rightarrow> nat \<Rightarrow> error + primitive" where
  "TextString_init self0 value tag =
     (let self = Base_init self0 tag Types_TEXT_STRING;
          self = (if value = PyNone then self\<lparr>self_value := PyStr []\<rparr>
                  else self\<lparr>self_value := value\<rparr>)
      in bind_result (validate self) (\<lambda>_.
           case self_value self of
             PyNone \<Rightarrow> Inr (self\<lparr>self_length := None, self_padding_length := None\<rparr>)
           | PyStr s \<Rightarrow>
               (let l = length s;
                    p = PADDING_SIZE - l mod PADDING_SIZE;
                    p = (if p = PADDING_SIZE then 0 else p)
                in Inr (self\<lparr>self_length := Some l, self_padding_length := Some p\<rparr>))
           | _ \<Rightarrow> Inl TypeError))"

fun TextString_read_chars ::
  "bool \<Rightarrow> nat \<Rightarrow> stream \<Rightarrow> nat list \<Rightarrow> error + nat list \<times> stream" where
  "TextString_read_chars py3 0 istream value = Inr (value, istream)"
| "TextString_read_chars py3 (Suc n) istream value =
     (case stream_read 1 istream of (cb, rest) \<Rightarrow>
        bind_result (unpack_c cb) (\<lambda>c.
        bind_result (if py3 then byte_decode c else Inr (unat c)) (\<lambda>ch.
          TextString_read_chars py3 n rest (value @ [ch]))))"

fun read_padding :: "nat \<Rightarrow> stream \<Rightarrow> error + stream" where
  "read_padding 0 istream = Inr istream"
| "read_padding (Suc n) istream =
     (case stream_read 1 istream of (pb, rest) \<Rightarrow>
        bind_result (unpack_unsigned 1 pb) (\<lambda>pad.
          if pad \<noteq> 0 then Inl ReadValueError else read_padding n rest))"

definition TextString_read_value ::
  "bool \<Rightarrow> primitive \<Rightarrow> stream \<Rightarrow> error + primitive \<times> stream" where
  "TextString_read_value py3 self istream =
     (case self_length self of
        None \<Rightarrow> Inl TypeError
      | Some l \<Rightarrow>
          bind_result (TextString_read_chars py3 l istream []) (\<lambda>(value, s1).
            let self' = self\<lparr>self_value := PyStr value\<rparr>;
                p = PADDING_SIZE - l mod PADDING_SIZE;
                self' = self'\<lparr>self_padding_length := Some p\<rparr>
            in if p < PADDING_SIZE
               then bind_result (read_padding p s1) (\<lambda>s2. Inr (self', s2))
               else Inr (self', s1)))"

definition TextString_read ::
  "bool \<Rightarrow> (nat \<Rightarrow> bool) \<Rightarrow> (nat \<Rightarrow> bool) \<Rightarrow> primitive \<Rightarrow> stream
     \<Rightarrow> error + primitive \<times> stream" where
  "TextString_read py3 Tags Types self istream =
     bind_result (Base_read Tags Types self istream) (\<lambda>(self', s1).
     bind_result (TextString_read_value py3 self' s1) (\<lambda>(self'', s2).
     bind_result (validate self'') (\<lambda>_. Inr (self'', s2))))"

fun TextString_write_chars :: "bool \<Rightarrow> nat list \<Rightarrow> stream \<Rightarrow> error + stream" where
  "TextString_write_chars py3 [] ostream = Inr ostream"
| "TextString_write_chars py3 (char # rest) ostream =
     bind_result (if py3 then char_encode char else char_py2 char) (\<lambda>c.
     bind_result (pack_c c) (\<lambda>b.
       TextString_write_chars py3 rest (stream_write ostream b)))"

fun write_padding :: "nat \<Rightarrow> stream \<Rightarrow> error + stream" where
  "write_padding 0 ostream = Inr ostream"
| "write_padding (Suc n) ostream =
     bind_result (pack_unsigned 1 0) (\<lambda>b. write_padding n (stream_write ostream b))"

definition TextString_write_value :: "bool \<Rightarrow> primitive \<Rightarrow> stream \<Rightarrow> error + stream" where
  "TextString_write_value py3 self ostream =
     (case self_value self of
        PyStr s \<Rightarrow>
          bind_result (TextString_write_chars py3 s ostream) (\<lambda>s1.
            case self_padding_length self of
              None \<Rightarrow> Inl TypeError
            | Some p \<Rightarrow> write_padding p s1)
      | _ \<Rightarrow> Inl TypeError)"

definition TextString_write ::
  "bool \<Rightarrow> (nat \<Rightarrow> bool) \<Rightarrow> primitive \<Rightarrow> stream \<Rightarrow> error + stream" where
  "TextString_write py3 Types self ostream =
     bind_result (Base_write Types self ostream) (\<lambda>s1. TextString_write_value py3 self s1)"

text \<open>
  \<^verbatim>\<open>bytes(value)\<close> in Python 3: a copy of a \<^verbatim>\<open>bytes\<close>, that many zero bytes for a
  non-negative \<^verbatim>\<open>int\<close> (\<^verbatim>\<open>ValueError\<close> for a negative one), \<^verbatim>\<open>TypeError\<close> for a \<^verbatim>\<open>str\<close>.
\<close>

fun py_bytes :: "pyval \<Rightarrow> error + byte list" where
  "py_bytes (PyBytes bs) = Inr bs"
| "py_bytes (PyInt n) = (if n < 0 then Inl ValueError else Inr (replicate (nat n) 0))"
| "py_bytes (PyBool b) = Inr (replicate (if b then 1 else 0) 0)"
| "py_bytes v = Inl TypeError"

definition ByteString_init :: "primitive \<Rightarrow> pyval \<Rightarrow> nat \<Rightarrow> error + primitive" where
  "ByteString_init self0 value tag =
     (let self = Base_init self0 tag Types_BYTE_STRING
      in bind_result (if value = PyNone then Inr [] else py_bytes value) (\<lambda>bs.
         let self = self\<lparr>self_value := PyBytes bs\<rparr>
         in bind_result (validate self) (\<lambda>_.
              let l = length bs;
                  p = PADDING_SIZE - l mod PADDING_SIZE;
                  p = (if p = PADDING_SIZE then 0 else p)
              in Inr (self\<lparr>self_length := Some l, self_padding_length := Some p\<rparr>))))"

fun ByteString_read_data :: "nat \<Rightarrow> stream \<Rightarrow> byte list \<Rightarrow> error + byte list \<times> stream" where
  "ByteString_read_data 0 istream data = Inr (data, istream)"
| "ByteString_read_data (Suc n) istream data =
     (case stream_read 1 istream of (b1, rest) \<Rightarrow>
        (case b1 of [] \<Rightarrow> Inl IndexError
         | b # _ \<Rightarrow> ByteString_read_data n rest (data @ [b])))"

definition ByteString_read_value :: "primitive \<Rightarrow> stream \<Rightarrow> error + primitive \<times> stream" where
  "ByteString_read_value self istream =
     (case self_length self of
        None \<Rightarrow> Inl TypeError
      | Some l \<Rightarrow>
          bind_result (ByteString_read_data l istream []) (\<lambda>(data, s1).
            let self' = self\<lparr>self_value := PyBytes data\<rparr>;
                p = PADDING_SIZE - l mod PADDING_SIZE;
                p = (if p = PADDING_SIZE then 0 else p);
                self' = self'\<lparr>self_padding_length := Some p\<rparr>
            in if p < PADDING_SIZE
               then bind_result (read_padding p s1) (\<lambda>s2. Inr (self', s2))
               else Inr (self', s1)))"

definition ByteString_read ::
  "(nat \<Rightarrow> bool) \<Rightarrow> (nat \<Rightarrow> bool) \<Rightarrow> primitive \<Rightarrow> stream \<Rightarrow> error + primitive \<times> stream" where
  "ByteString_read Tags Types self istream =
     bind_result (Base_read Tags Types self istream) (\<lambda>(self', s1).
       ByteString_read_value self' s1)"

fun ByteString_write_data :: "byte list \<Rightarrow> stream \<Rightarrow> error + stream" where
  "ByteString_write_data [] ostream = Inr ostream"
| "ByteString_write_data (byte # rest) ostream =
     bind_result (pack_unsigned 1 (uint byte)) (\<lambda>b.
       ByteString_write_data rest (stream_write ostream b))"

definition ByteString_write_value :: "primitive \<Rightarrow> stream \<Rightarrow> error + stream" where
  "ByteString_write_value self ostream =
     (case self_value self of
        PyBytes bs \<Rightarrow>
          bind_result (ByteString_write_data bs ostream) (\<lambda>s1.
            case self_padding_length self of
              None \<Rightarrow> Inl TypeError
            | Some p \<Rightarrow> write_padding p s1)
      | _ \<Rightarrow> Inl TypeError)"

definition ByteString_write :: "(nat \<Rightarrow> bool) \<Rightarrow> primitive \<Rightarrow> stream \<Rightarrow> error + stream" where
  "ByteString_write Types self ostream =
     bind_result (Base_write Types self ostream) (\<lambda>s1. ByteString_write_value self s1)"

section \<open>Constructing, encoding and decoding\<close>

text \<open>
  \<^verbatim>\<open>Integer(value, tag, signed)\<close> and the like: a fresh object of the class, then its
  \<^verbatim>\<open>__init__\<close>. \<^verbatim>\<open>DateTime\<close> and \<^verbatim>\<open>Interval\<close> run the \<^verbatim>\<open>__init__\<close> of their parent and then
  set the type.
\<close>

definition Base_new :: "nat \<Rightarrow> nat \<Rightarrow> primitive" where
  "Base_new tag type = Base_init (new_object C_Base) tag type"

definition Integer_new :: "pyval \<Rightarrow> nat \<Rightarrow> bool \<Rightarrow> error + primitive" where
  "Integer_new value tag signed_flag = Integer_init (new_object C_Integer) value tag signed_flag"

definition LongInteger_new :: "pyval \<Rightarrow> nat \<Rightarrow> error + primitive" where
  "LongInteger_new value tag = LongInteger_init (new_object C_LongInteger) value tag"

definition BigInteger_new :: "pyval \<Rightarrow> nat \<Rightarrow> error + primitive" where
  "BigInteger_new value tag = BigInteger_init (new_object C_BigInteger) value tag"

definition Enumeration_new :: "pyval \<Rightarrow> nat \<Rightarrow> error + primitive" where
  "Enumeration_new value tag = Enumeration_init (new_object C_Enumeration) value tag"

definition Boolean_new :: "pyval \<Rightarrow> nat \<Rightarrow> error + primitive" where
  "Boolean_new value tag = Boolean_init (new_object C_Boolean) value tag"

definition TextString_new :: "pyval \<Rightarrow> nat \<Rightarrow> error + primitive" where
  "TextString_new value tag = TextString_init (new_object C_TextString) value tag"

definition ByteString_new :: "pyval \<Rightarrow> nat \<Rightarrow> error + primitive" where
  "ByteString_new value tag = ByteString_init (new_object C_ByteString) value tag"

definition DateTime_new :: "pyval \<Rightarrow> nat \<Rightarrow> error + primitive" where
  "DateTime_new value tag = DateTime_init (new_object C_DateTime) value tag"

definition Interval_new :: "pyval \<Rightarrow> nat \<Rightarrow> error + primitive" where
  "Interval_new value tag = Interval_init (new_object C_Interval) value tag"

text \<open>\<^verbatim>\<open>BigInteger.write\<close> also assigns \<^verbatim>\<open>self.length\<close>; this is the stream it leaves.\<close>

definition BigInteger_write_stream :: "(nat \<Rightarrow> bool) \<Rightarrow> primitive \<Rightarrow> stream \<Rightarrow> error + stream" where
  "BigInteger_write_stream Types self ostream =
     bind_result (BigInteger_write Types self ostream) (\<lambda>(self', s1). Inr s1)"

text \<open>
  Encoding: construct the primitive and write it to an empty stream. Decoding: construct
  a primitive with the expected tag, read it from a stream holding the bytes, check with
  \<^verbatim>\<open>is_oversized\<close> that the stream is drained, and take the value. Re-encoding: write the
  object that decoding left to an empty stream.
\<close>

definition encode_with ::
  "(primitive \<Rightarrow> stream \<Rightarrow> error + stream) \<Rightarrow> error + primitive \<Rightarrow> error + byte list" where
  "encode_with write obj = bind_result obj (\<lambda>self. write self [])"

definition decode_object ::
  "(primitive \<Rightarrow> stream \<Rightarrow> error + primitive \<times> stream) \<Rightarrow> error + primitive \<Rightarrow> byte list
     \<Rightarrow> error + primitive" where
  "decode_object read obj bs =
     bind_result obj (\<lambda>self.
     bind_result (read self bs) (\<lambda>(self', rest).
     bind_result (is_oversized rest) (\<lambda>_. Inr self')))"

definition decode_with ::
  "(primitive \<Rightarrow> stream \<Rightarrow> error + primitive \<times> stream) \<Rightarrow> error + primitive \<Rightarrow> byte list
     \<Rightarrow> error + pyval" where
  "decode_with read obj bs =
     bind_result (decode_object read obj bs) (\<lambda>self'. Inr (self_value self'))"

definition reencode_with ::
  "(primitive \<Rightarrow> stream \<Rightarrow> error + primitive \<times> stream) \<Rightarrow> (primitive \<Rightarrow> stream \<Rightarrow> error + stream)
     \<Rightarrow> error + primitive \<Rightarrow> byte list \<Rightarrow> error + byte list" where
  "reencode_with read write obj bs =
     bind_result (decode_object read obj bs) (\<lambda>self'. write self' [])"

text \<open>The eight header bytes of a primitive: tag, type and length, big-endian.\<close>

definition header_bytes :: "nat \<Rightarrow> nat \<Rightarrow> nat \<Rightarrow> byte list" where
  "header_bytes tag type l = be_bytes 3 tag @ be_bytes 1 type @ be_bytes 4 l"

text \<open>
  Modelled from the spec: the enumeration \<^verbatim>\<open>Tags\<close> (\<^verbatim>\<open>kmip.core.enums\<close>) is not under
  src/. The spec names two tag values, \<open>0x420020\<close> (its scenarios) and \<open>0x42007B\<close>
  (section 6). The theorems hold for every enumeration; their closed instances use this one.
\<close>

definition spec_Tags :: "nat \<Rightarrow> bool" where
  "spec_Tags t = (t = 0x420020 \<or> t = 0x42007B)"

section \<open>The specification's words\<close>

text \<open>
  Section 3 of the spec: the BigInteger value is ``the minimal two's-complement big-endian
  representation left-padded with sign-extension bytes up to the nearest 8-byte
  boundary''. \<open>spec_minimal_twos_complement\<close> is the shortest two's-complement byte
  string of a number, \<open>spec_BigInteger_value\<close> pads it.
\<close>

function spec_minimal_twos_complement :: "int \<Rightarrow> byte list" where
  "spec_minimal_twos_complement v =
     (if - 128 \<le> v \<and> v < 128 then [of_int v]
      else spec_minimal_twos_complement (v div 256) @ [of_int (v mod 256)])"
  by pat_completeness auto
termination
  by (relation "measure (\<lambda>v. nat \<bar>v\<bar>)") auto

declare spec_minimal_twos_complement.simps [simp del]

definition spec_BigInteger_value :: "int \<Rightarrow> byte list" where
  "spec_BigInteger_value v =
     (let bs = spec_minimal_twos_complement v;
          pad = (8 - length bs mod 8) mod 8
      in replicate pad (if v < 0 then 0xFF else 0x00) @ bs)"

text \<open>
  Section 3 of the spec: TextString's ``length = number of encoded bytes'' of the UTF-8
  text. \<open>utf8_length\<close> counts the bytes \<^verbatim>\<open>value.encode()\<close> has.
\<close>

definition utf8_length :: "nat list \<Rightarrow> nat" where
  "utf8_length s =
     sum_list (map (\<lambda>c. case char_encode c of Inl e \<Rightarrow> 0 | Inr bs \<Rightarrow> length bs) s)"

text \<open>Section 4.7 of the spec: \<open>pad = (8 - length mod 8) mod 8\<close>.\<close>

definition spec_pad :: "nat \<Rightarrow> nat" where
  "spec_pad l = (8 - l mod 8) mod 8"


section \<open>Big-endian bytes\<close>

lemma be_nat_Nil [simp]: "be_nat [] = 0"
  by (simp add: be_nat_def)

lemma be_nat_snoc [simp]: "be_nat (bs @ [b]) = be_nat bs * 256 + unat b"
  by (simp add: be_nat_def)

lemma foldl_be_shift:
  "foldl (\<lambda>a b. a * 256 + unat b) a (bs :: byte list) = a * 256 ^ length bs + be_nat bs"
  by (induction bs rule: rev_induct) (simp_all add: be_nat_def algebra_simps)

lemma be_nat_Cons: "be_nat (b # bs) = unat b * 256 ^ length bs + be_nat bs"
  using foldl_be_shift [of "unat b" bs] by (simp add: be_nat_def)

lemma be_nat_Cons_0 [simp]: "be_nat (0 # bs) = be_nat bs"
  by (simp add: be_nat_Cons)

lemma length_be_bytes [simp]: "length (be_bytes n v) = n"
  by (induction n arbitrary: v) simp_all

lemma unat_byte_of_nat_mod: "unat (of_nat (v mod 256) :: byte) = v mod 256"
  by (simp add: unat_of_nat)

lemma be_nat_be_bytes: "be_nat (be_bytes n v) = v mod 256 ^ n"
proof (induction n arbitrary: v)
  case 0
  show ?case by simp
next
  case (Suc n)
  have "be_nat (be_bytes (Suc n) v) = (v div 256) mod 256 ^ n * 256 + v mod 256"
    by (simp add: Suc unat_byte_of_nat_mod)
  also have "\<dots> = v mod 256 ^ Suc n"
    by (simp add: mod_mult2_eq)
  finally show ?case .
qed

lemma be_nat_lt: "be_nat bs < 256 ^ length bs"
proof (induction bs rule: rev_induct)
  case Nil
  show ?case by simp
next
  case (snoc b bs)
  have "unat b < 256" using unsigned_less [of b, where ?'a = nat] by simp
  with snoc show ?case by simp
qed

lemma be_bytes_be_nat: "be_bytes (length bs) (be_nat bs) = bs"
proof (induction bs rule: rev_induct)
  case Nil
  show ?case by simp
next
  case (snoc b bs)
  have b: "unat b < 256" using unsigned_less [of b, where ?'a = nat] by simp
  then have "(be_nat bs * 256 + unat b) div 256 = be_nat bs"
    and "(be_nat bs * 256 + unat b) mod 256 = unat b" by simp_all
  with snoc show ?case by simp
qed

section \<open>The header codec\<close>

lemma read_tag_eq:
  "read_tag Tags self s =
     (if length s < 3 then Inl StructError
      else if \<not> Tags (be_nat (take 3 s)) then Inl ValueError
      else if be_nat (take 3 s) \<noteq> self_tag self then Inl ReadValueError
      else Inr (drop 3 s))"
  by (auto simp: read_tag_def stream_read_def TAG_SIZE_def unpack_unsigned_def bind_result_def)

lemma read_type_eq:
  "read_type Types self s =
     (case s of [] \<Rightarrow> Inl ReadValueError
      | b # rest \<Rightarrow>
          if \<not> Types (unat b) then Inl ValueError
          else if unat b \<noteq> self_type self then Inl ReadValueError
          else Inr rest)"
  by (cases s)
     (auto simp: read_type_def stream_read_def TYPE_SIZE_def unpack_unsigned_def bind_result_def
        be_nat_Cons)

lemma read_length_eq:
  "read_length self s =
     (if length s < 4 then Inl ReadValueError
      else Inr (self\<lparr>self_length := Some (be_nat (take 4 s))\<rparr>, drop 4 s))"
  by (auto simp: read_length_def stream_read_def LENGTH_SIZE_def unpack_unsigned_def
        bind_result_def)

lemma Base_read_eq:
  "Base_read Tags Types self s =
     (if length s < 3 then Inl StructError
      else if \<not> Tags (be_nat (take 3 s)) then Inl ValueError
      else if be_nat (take 3 s) \<noteq> self_tag self then Inl ReadValueError
      else if length s < 4 then Inl ReadValueError
      else if \<not> Types (unat (s ! 3)) then Inl ValueError
      else if unat (s ! 3) \<noteq> self_type self then Inl ReadValueError
      else if length s < 8 then Inl ReadValueError
      else Inr (self\<lparr>self_length := Some (be_nat (take 4 (drop 4 s)))\<rparr>, drop 8 s))"
proof -
  have d: "drop 3 s = s ! 3 # drop 4 s" if "4 \<le> length s"
    using that Cons_nth_drop_Suc [of 3 s] by simp
  have e: "drop 3 s = []" if "length s < 4" "3 \<le> length s"
    using that by simp
  show ?thesis
    unfolding Base_read_def read_tag_eq read_length_eq
    by (auto simp: bind_result_def read_type_eq d e)
qed

text \<open>
  Claim C10. When the three tag bytes decode to a number that is no member of \<^verbatim>\<open>Tags\<close>,
  or the type byte to a number that is no member of \<^verbatim>\<open>Types\<close>, header decoding raises
  the \<^verbatim>\<open>ValueError\<close> of the enum conversion, not \<^verbatim>\<open>ReadValueError\<close>, whatever tag and
  type the object expects: the conversion comes before the comparison.
\<close>

theorem unknown_member_raises_ValueError:
  "(3 \<le> length s \<and> \<not> Tags (be_nat (take 3 s)) \<longrightarrow>
      read_tag Tags self s = Inl ValueError \<and> Base_read Tags Types self s = Inl ValueError)
   \<and> (s1 \<noteq> [] \<and> \<not> Types (unat (hd s1)) \<longrightarrow> read_type Types self s1 = Inl ValueError)
   \<and> (read_tag Tags self s = Inr s1 \<and> s1 \<noteq> [] \<and> \<not> Types (unat (hd s1)) \<longrightarrow>
      Base_read Tags Types self s = Inl ValueError)"
proof (intro conjI impI)
  assume "3 \<le> length s \<and> \<not> Tags (be_nat (take 3 s))"
  then show "read_tag Tags self s = Inl ValueError"
    and "Base_read Tags Types self s = Inl ValueError"
    by (simp_all add: read_tag_eq Base_read_eq)
next
  assume "s1 \<noteq> [] \<and> \<not> Types (unat (hd s1))"
  then show "read_type Types self s1 = Inl ValueError"
    by (cases s1) (simp_all add: read_type_eq)
next
  assume a: "read_tag Tags self s = Inr s1 \<and> s1 \<noteq> [] \<and> \<not> Types (unat (hd s1))"
  then have "read_type Types self s1 = Inl ValueError"
    by (cases s1) (simp_all add: read_type_eq)
  with a show "Base_read Tags Types self s = Inl ValueError"
    by (simp add: Base_read_def bind_result_def)
qed

theorem unknown_member_raises_ValueError_witness:
  "read_tag spec_Tags (Base_new 0x420020 Types_INTEGER) [0x42, 0x00, 0x21, 0x02] = Inl ValueError
   \<and> Base_read spec_Tags spec_Types (Base_new 0x420020 Types_INTEGER) [0x42, 0x00, 0x21, 0x02]
        = Inl ValueError
   \<and> read_type spec_Types (Base_new 0x420020 Types_INTEGER) [0x0B, 0x00] = Inl ValueError
   \<and> Base_read spec_Tags spec_Types (Base_new 0x420020 Types_INTEGER) [0x42, 0x00, 0x20, 0x0B, 0x00]
        = Inl ValueError"
proof -
  have t: "be_nat (take 3 [0x42, 0x00, 0x21, 0x02 :: byte]) = 0x420021"
    by (simp add: be_nat_def)
  have rt: "read_tag spec_Tags (Base_new 0x420020 Types_INTEGER) [0x42, 0x00, 0x20, 0x0B, 0x00]
      = Inr [0x0B, 0x00]"
    by (simp add: read_tag_eq be_nat_def spec_Tags_def Base_new_def Base_init_def)
  have a: "3 \<le> length [0x42, 0x00, 0x21, 0x02 :: byte]
      \<and> \<not> spec_Tags (be_nat (take 3 [0x42, 0x00, 0x21, 0x02 :: byte]))"
    unfolding t by (simp add: spec_Tags_def)
  have b: "[0x0B, 0x00 :: byte] \<noteq> [] \<and> \<not> spec_Types (unat (hd [0x0B, 0x00 :: byte]))"
    by (simp add: spec_Types_def)
  from unknown_member_raises_ValueError
    [of "[0x42, 0x00, 0x21, 0x02]" spec_Tags "Base_new 0x420020 Types_INTEGER" spec_Types
        "[0x0B, 0x00]"] a b
  have 1: "read_tag spec_Tags (Base_new 0x420020 Types_INTEGER) [0x42, 0x00, 0x21, 0x02] = Inl ValueError"
    and 2: "Base_read spec_Tags spec_Types (Base_new 0x420020 Types_INTEGER) [0x42, 0x00, 0x21, 0x02]
        = Inl ValueError"
    and 3: "read_type spec_Types (Base_new 0x420020 Types_INTEGER) [0x0B, 0x00] = Inl ValueError"
    by blast+
  from unknown_member_raises_ValueError
    [of "[0x42, 0x00, 0x20, 0x0B, 0x00]" spec_Tags "Base_new 0x420020 Types_INTEGER" spec_Types
        "[0x0B, 0x00]"] rt b
  have 4: "Base_read spec_Tags spec_Types (Base_new 0x420020 Types_INTEGER) [0x42, 0x00, 0x20, 0x0B, 0x00]
        = Inl ValueError"
    by blast
  from 1 2 3 4 show ?thesis by blast
qed

text \<open>
  Claim C7, amended. On a stream that holds at least the three tag bytes, header
  decoding fails with \<^verbatim>\<open>ReadValueError\<close> exactly when the tag is a member of \<^verbatim>\<open>Tags\<close>
  and differs from the expected tag, or the type byte is missing, or the type is a member
  of \<^verbatim>\<open>Types\<close> and differs from the expected type, or fewer than four length bytes are
  left; it succeeds exactly when tag and type are members equal to the expected ones
  and eight bytes are there. What a stream shorter than the tag does is left out.
\<close>

theorem header_ReadValueError_iff:
  assumes "3 \<le> length s"
  shows "(Base_read Tags Types self s = Inl ReadValueError \<longleftrightarrow>
           Tags (be_nat (take 3 s)) \<and>
           (be_nat (take 3 s) \<noteq> self_tag self \<or> length s < 4 \<or>
            (Types (unat (s ! 3)) \<and> (unat (s ! 3) \<noteq> self_type self \<or> length s < 8))))
       \<and> (Base_read Tags Types self s
             = Inr (self\<lparr>self_length := Some (be_nat (take 4 (drop 4 s)))\<rparr>, drop 8 s) \<longleftrightarrow>
           Tags (be_nat (take 3 s)) \<and> be_nat (take 3 s) = self_tag self \<and>
           Types (unat (s ! 3)) \<and> unat (s ! 3) = self_type self \<and> 8 \<le> length s)"
  using assms by (auto simp: Base_read_eq)

theorem header_ReadValueError_iff_witness:
  "Base_read spec_Tags spec_Types (Base_new 0x420020 Types_INTEGER)
      [0x42, 0x00, 0x20, 0x02, 0x00, 0x00, 0x00] = Inl ReadValueError
   \<and> Base_read spec_Tags spec_Types (Base_new 0x420020 Types_INTEGER)
      [0x42, 0x00, 0x20, 0x02, 0x00, 0x00, 0x00, 0x04]
      = Inr ((Base_new 0x420020 Types_INTEGER)\<lparr>self_length := Some 4\<rparr>, [])"
proof -
  have h: "3 \<le> length [0x42, 0x00, 0x20, 0x02, 0x00, 0x00, 0x00 :: byte]"
    and h': "3 \<le> length [0x42, 0x00, 0x20, 0x02, 0x00, 0x00, 0x00, 0x04 :: byte]" by simp_all
  show ?thesis
    using header_ReadValueError_iff [OF h, of spec_Tags spec_Types "Base_new 0x420020 Types_INTEGER"]
      header_ReadValueError_iff [OF h', of spec_Tags spec_Types "Base_new 0x420020 Types_INTEGER"]
    by (simp add: be_nat_def spec_Tags_def spec_Types_def Base_new_def Base_init_def
        new_object_def Types_INTEGER_def)
qed

text \<open>
  The claim as stated fails: a stream shorter than the tag raises \<^verbatim>\<open>struct.error\<close>, and
  a type byte outside \<^verbatim>\<open>Types\<close>, though different from the expected type, raises
  \<^verbatim>\<open>ValueError\<close>.
\<close>

theorem header_error_counterexample:
  "length [0x42, 0x00 :: byte] < TAG_SIZE
   \<and> Base_read spec_Tags spec_Types (Base_new 0x420020 Types_INTEGER) [0x42, 0x00] = Inl StructError
   \<and> Base_read spec_Tags spec_Types (Base_new 0x420020 Types_INTEGER) [0x42, 0x00]
        \<noteq> Inl ReadValueError
   \<and> unat (0x0B :: byte) \<noteq> self_type (Base_new 0x420020 Types_INTEGER)
   \<and> Base_read spec_Tags spec_Types (Base_new 0x420020 Types_INTEGER)
        [0x42, 0x00, 0x20, 0x0B, 0x00, 0x00, 0x00, 0x04] = Inl ValueError
   \<and> Base_read spec_Tags spec_Types (Base_new 0x420020 Types_INTEGER)
        [0x42, 0x00, 0x20, 0x0B, 0x00, 0x00, 0x00, 0x04] \<noteq> Inl ReadValueError"
  by (simp add: Base_read_eq be_nat_def spec_Tags_def spec_Types_def Base_new_def
      Base_init_def new_object_def Types_INTEGER_def TAG_SIZE_def)

end
